theory Spec2Isabelle
  imports Main
begin

section \<open>The host: what the two library calls of \<open>is_container\<close> see\<close>

text \<open>
  \<open>is_container\<close> (\<open>lib/charms/hpc_libs/v0/is_container.py\<close>) calls two functions of the
  Python standard library, \<open>shutil.which\<close> and \<open>subprocess.run\<close>. Neither is code of the
  repository, so the answers of the machine are parameters of the model, collected in the
  record \<open>host\<close>:
  \<^item> \<open>shutil_which h cmd\<close> is what \<open>shutil.which(cmd)\<close> returns on the host: \<open>None\<close> when no
    executable of that name is on the search path, the path found otherwise;
  \<^item> \<open>spawn h argv\<close> is what happens when the host is asked to start \<open>argv\<close> as a child
    process: the request fails with an operating-system error, or the child runs and
    exits with a status after writing to its output streams, or the child never exits.
\<close>

datatype os_error = PermissionError | FileNotFoundError | OSError int

record child =
  exit_status :: int
  written_stdout :: string
  written_stderr :: string

datatype spawn_result = SpawnFails os_error | Exits child | NeverExits

record host =
  shutil_which :: "string \<Rightarrow> string option"
  spawn :: "string list \<Rightarrow> spawn_result"

text \<open>
  The effects of a call are kept in a log that is passed through: a request to start a
  child process, and the completed wait for a child that has exited.
\<close>

datatype event = Spawn "string list" | Reap "string list"

section \<open>\<open>subprocess.run\<close> with default arguments\<close>

text \<open>
  \<open>subprocess.run(argv)\<close> starts the child, waits for it without a timeout and returns a
  \<open>CompletedProcess\<close>. The source passes neither \<open>stdout\<close>, \<open>stderr\<close> nor
  \<open>capture_output\<close>, so the streams of the child are inherited and both attributes of the
  result are \<open>None\<close>. An error of the spawn is raised to the caller (\<open>Inl\<close>); a child that
  never exits leaves the call without a result (\<open>None\<close>).
\<close>

record completed_process =
  cmd_args :: "string list"
  returncode :: int
  stdout :: "string option"
  stderr :: "string option"

definition subprocess_run ::
  "host \<Rightarrow> string list \<Rightarrow> event list \<Rightarrow> (os_error + completed_process) option \<times> event list" where
  "subprocess_run h argv tr =
     (case spawn h argv of
        SpawnFails e \<Rightarrow> (Some (Inl e), tr @ [Spawn argv])
      | NeverExits \<Rightarrow> (None, tr @ [Spawn argv])
      | Exits c \<Rightarrow>
          (Some (Inr \<lparr>cmd_args = argv, returncode = exit_status c,
                      stdout = None, stderr = None\<rparr>),
           tr @ [Spawn argv, Reap argv]))"

section \<open>The exception class\<close>

text \<open>
  \<open>DetectVirtNotFoundError\<close> is an \<open>Exception\<close> subclass: it keeps the tuple of the
  arguments it was constructed with in \<open>args\<close>. The property \<open>message\<close> is
  \<open>self.args[0]\<close>, which raises \<open>IndexError\<close> on an empty tuple.
\<close>

datatype 'a DetectVirtNotFoundError = DetectVirtNotFoundError (args: "'a list")

datatype index_error = IndexError

fun message :: "'a DetectVirtNotFoundError \<Rightarrow> index_error + 'a" where
  "message (DetectVirtNotFoundError []) = Inl IndexError"
| "message (DetectVirtNotFoundError (a # _)) = Inr a"

text \<open>What a call of \<open>is_container\<close> can raise: its own error, or an error of the spawn
  that passes through it unchanged.\<close>

datatype raised =
  DetectVirtNotFound "string DetectVirtNotFoundError"
| Propagated os_error

section \<open>\<open>is_container\<close>\<close>

definition is_container :: "host \<Rightarrow> event list \<Rightarrow> (raised + bool) option \<times> event list" where
  "is_container h tr =
     (if shutil_which h ''systemd-detect-virt'' = None
      then (Some (Inl (DetectVirtNotFound (DetectVirtNotFoundError
               [''executable `systemd-detect-virt` not found. ''
                @ ''cannot determine if machine is a container instance'']))), tr)
      else (case subprocess_run h [''systemd-detect-virt'', ''--container''] tr of
              (None, tr') \<Rightarrow> (None, tr')
            | (Some (Inl e), tr') \<Rightarrow> (Some (Inl (Propagated e)), tr')
            | (Some (Inr result), tr') \<Rightarrow> (Some (Inr (returncode result = 0)), tr')))"

section \<open>Reading the log\<close>

text \<open>The command lines of the spawn requests in a log, in order.\<close>

fun spawned :: "event list \<Rightarrow> string list list" where
  "spawned [] = []"
| "spawned (Spawn argv # es) = argv # spawned es"
| "spawned (Reap _ # es) = spawned es"

section \<open>Hosts used as concrete inputs\<close>

text \<open>A machine inside an LXD container: the tool is installed, prints \<open>lxc\<close> and
  exits 0.\<close>

definition lxc_host :: host where
  "lxc_host = \<lparr>shutil_which = (\<lambda>cmd. if cmd = ''systemd-detect-virt''
                                 then Some ''/usr/bin/systemd-detect-virt'' else None),
               spawn = (\<lambda>argv. Exits \<lparr>exit_status = 0, written_stdout = ''lxc'',
                                       written_stderr = ''''\<rparr>)\<rparr>"

text \<open>The same exit status with other output on both streams.\<close>

definition noisy_lxc_host :: host where
  "noisy_lxc_host = \<lparr>shutil_which = (\<lambda>cmd. if cmd = ''systemd-detect-virt''
                                 then Some ''/usr/local/bin/systemd-detect-virt'' else None),
               spawn = (\<lambda>argv. Exits \<lparr>exit_status = 0, written_stdout = ''lxc-libvirt'',
                                       written_stderr = ''warning: degraded''\<rparr>)\<rparr>"

text \<open>Bare metal: the tool prints \<open>none\<close> and exits 1.\<close>

definition bare_metal_host :: host where
  "bare_metal_host = \<lparr>shutil_which = (\<lambda>cmd. if cmd = ''systemd-detect-virt''
                                 then Some ''/usr/bin/systemd-detect-virt'' else None),
               spawn = (\<lambda>argv. Exits \<lparr>exit_status = 1, written_stdout = ''none'',
                                       written_stderr = ''''\<rparr>)\<rparr>"

text \<open>A machine without systemd: nothing is found on the search path.\<close>

definition minimal_host :: host where
  "minimal_host = \<lparr>shutil_which = (\<lambda>cmd. None),
                   spawn = (\<lambda>argv. SpawnFails FileNotFoundError)\<rparr>"

text \<open>The tool is found, but the host refuses to start it.\<close>

definition denied_host :: host where
  "denied_host = \<lparr>shutil_which = (\<lambda>cmd. if cmd = ''systemd-detect-virt''
                                 then Some ''/usr/bin/systemd-detect-virt'' else None),
                  spawn = (\<lambda>argv. SpawnFails PermissionError)\<rparr>"

section \<open>Auxiliary facts\<close>

lemma spawned_append: "spawned (xs @ ys) = spawned xs @ spawned ys"
  by (induction xs rule: spawned.induct) simp_all

lemma is_container_not_found:
  assumes "shutil_which h ''systemd-detect-virt'' = None"
  shows "is_container h tr =
           (Some (Inl (DetectVirtNotFound (DetectVirtNotFoundError
              [''executable `systemd-detect-virt` not found. cannot determine if machine is a container instance'']))),
            tr)"
  using assms by (simp add: is_container_def)

lemma is_container_found:
  assumes "shutil_which h ''systemd-detect-virt'' \<noteq> None"
  shows "is_container h tr =
           (case spawn h [''systemd-detect-virt'', ''--container''] of
              SpawnFails e \<Rightarrow>
                (Some (Inl (Propagated e)),
                 tr @ [Spawn [''systemd-detect-virt'', ''--container'']])
            | Exits c \<Rightarrow>
                (Some (Inr (exit_status c = 0)),
                 tr @ [Spawn [''systemd-detect-virt'', ''--container''],
                       Reap [''systemd-detect-virt'', ''--container'']])
            | NeverExits \<Rightarrow>
                (None, tr @ [Spawn [''systemd-detect-virt'', ''--container'']]))"
  using assms
  by (cases "spawn h [''systemd-detect-virt'', ''--container'']")
     (simp_all add: is_container_def subprocess_run_def)

lemma lxc_host_simps:
  "shutil_which lxc_host ''systemd-detect-virt'' = Some ''/usr/bin/systemd-detect-virt''"
  "spawn lxc_host argv = Exits \<lparr>exit_status = 0, written_stdout = ''lxc'', written_stderr = ''''\<rparr>"
  by (simp_all add: lxc_host_def)

lemma noisy_lxc_host_simps:
  "shutil_which noisy_lxc_host ''systemd-detect-virt'' = Some ''/usr/local/bin/systemd-detect-virt''"
  "spawn noisy_lxc_host argv =
     Exits \<lparr>exit_status = 0, written_stdout = ''lxc-libvirt'', written_stderr = ''warning: degraded''\<rparr>"
  by (simp_all add: noisy_lxc_host_def)

lemma bare_metal_host_simps:
  "shutil_which bare_metal_host ''systemd-detect-virt'' = Some ''/usr/bin/systemd-detect-virt''"
  "spawn bare_metal_host argv = Exits \<lparr>exit_status = 1, written_stdout = ''none'', written_stderr = ''''\<rparr>"
  by (simp_all add: bare_metal_host_def)

lemma minimal_host_simps:
  "shutil_which minimal_host cmd = None"
  "spawn minimal_host argv = SpawnFails FileNotFoundError"
  by (simp_all add: minimal_host_def)

lemma denied_host_simps:
  "shutil_which denied_host ''systemd-detect-virt'' = Some ''/usr/bin/systemd-detect-virt''"
  "spawn denied_host argv = SpawnFails PermissionError"
  by (simp_all add: denied_host_def)

section \<open>Exit status 0 and nonzero\<close>

text \<open>
  C1. Whenever \<open>systemd-detect-virt\<close> is found on the search path and the process started
  for it exits with status 0, \<open>is_container\<close> returns \<open>True\<close>.
\<close>

theorem is_container_exit_zero:
  assumes "shutil_which h ''systemd-detect-virt'' \<noteq> None"
    and "spawn h [''systemd-detect-virt'', ''--container''] = Exits c"
    and "exit_status c = 0"
  shows "fst (is_container h tr) = Some (Inr True)"
  using assms by (simp add: is_container_found)

theorem is_container_exit_zero_witness:
  "shutil_which lxc_host ''systemd-detect-virt'' \<noteq> None
   \<and> spawn lxc_host [''systemd-detect-virt'', ''--container'']
       = Exits \<lparr>exit_status = 0, written_stdout = ''lxc'', written_stderr = ''''\<rparr>
   \<and> exit_status \<lparr>exit_status = 0, written_stdout = ''lxc'', written_stderr = ''''\<rparr> = 0
   \<and> fst (is_container lxc_host []) = Some (Inr True)"
  using is_container_exit_zero [of lxc_host
      "\<lparr>exit_status = 0, written_stdout = ''lxc'', written_stderr = ''''\<rparr>" "[]"]
  by (simp add: lxc_host_simps)

text \<open>
  C2. Whenever the tool is found and its process exits with a status other than 0,
  \<open>is_container\<close> returns \<open>False\<close>: every nonzero status, whatever its value, gives the
  same result.
\<close>

theorem is_container_exit_nonzero:
  assumes "shutil_which h ''systemd-detect-virt'' \<noteq> None"
    and "spawn h [''systemd-detect-virt'', ''--container''] = Exits c"
    and "exit_status c \<noteq> 0"
  shows "fst (is_container h tr) = Some (Inr False)"
  using assms by (simp add: is_container_found)

theorem is_container_exit_nonzero_witness:
  "shutil_which bare_metal_host ''systemd-detect-virt'' \<noteq> None
   \<and> spawn bare_metal_host [''systemd-detect-virt'', ''--container'']
       = Exits \<lparr>exit_status = 1, written_stdout = ''none'', written_stderr = ''''\<rparr>
   \<and> exit_status \<lparr>exit_status = 1, written_stdout = ''none'', written_stderr = ''''\<rparr> \<noteq> 0
   \<and> fst (is_container bare_metal_host []) = Some (Inr False)"
  using is_container_exit_nonzero [of bare_metal_host
      "\<lparr>exit_status = 1, written_stdout = ''none'', written_stderr = ''''\<rparr>" "[]"]
  by (simp add: bare_metal_host_simps)

section \<open>The missing executable\<close>

text \<open>
  C3. Whenever no executable named \<open>systemd-detect-virt\<close> is found on the search path, the
  call raises \<open>DetectVirtNotFoundError\<close>, whose \<open>message\<close> is a nonempty string, and it
  returns no boolean.
\<close>

theorem is_container_missing_raises:
  assumes "shutil_which h ''systemd-detect-virt'' = None"
  shows "(\<exists>d m. fst (is_container h tr) = Some (Inl (DetectVirtNotFound d))
                \<and> message d = Inr m \<and> m \<noteq> '''')
         \<and> (\<forall>b. fst (is_container h tr) \<noteq> Some (Inr b))"
  using assms by (simp add: is_container_not_found)

theorem is_container_missing_raises_witness:
  "shutil_which minimal_host ''systemd-detect-virt'' = None
   \<and> (\<exists>d m. fst (is_container minimal_host []) = Some (Inl (DetectVirtNotFound d))
              \<and> message d = Inr m \<and> m \<noteq> '''')
   \<and> (\<forall>b. fst (is_container minimal_host []) \<noteq> Some (Inr b))"
  using is_container_missing_raises [of minimal_host "[]"]
  by (simp add: minimal_host_simps)

text \<open>
  C4. The only error \<open>is_container\<close> raises of its own is the one for the missing
  executable: the call raises \<open>DetectVirtNotFoundError\<close> exactly when the lookup finds
  nothing. When the tool is found and starting it fails with an operating-system error
  (a permission error, for one), that same error reaches the caller, neither caught nor
  turned into \<open>DetectVirtNotFoundError\<close>.
\<close>

theorem is_container_other_errors_propagate:
  "((\<exists>d. fst (is_container h tr) = Some (Inl (DetectVirtNotFound d)))
      \<longleftrightarrow> shutil_which h ''systemd-detect-virt'' = None)
   \<and> (shutil_which h ''systemd-detect-virt'' \<noteq> None
        \<and> spawn h [''systemd-detect-virt'', ''--container''] = SpawnFails e
      \<longrightarrow> fst (is_container h tr) = Some (Inl (Propagated e))
          \<and> (\<forall>d. fst (is_container h tr) \<noteq> Some (Inl (DetectVirtNotFound d))))"
proof (cases "shutil_which h ''systemd-detect-virt'' = None")
  case True
  then show ?thesis by (simp add: is_container_not_found)
next
  case False
  then show ?thesis
    by (cases "spawn h [''systemd-detect-virt'', ''--container'']")
       (simp_all add: is_container_found)
qed

theorem is_container_other_errors_propagate_witness:
  "shutil_which denied_host ''systemd-detect-virt'' \<noteq> None
   \<and> spawn denied_host [''systemd-detect-virt'', ''--container''] = SpawnFails PermissionError
   \<and> fst (is_container denied_host []) = Some (Inl (Propagated PermissionError))
   \<and> (\<forall>d. fst (is_container denied_host []) \<noteq> Some (Inl (DetectVirtNotFound d)))"
  using is_container_other_errors_propagate [of denied_host "[]" PermissionError]
  by (simp add: denied_host_simps)

text \<open>
  C8. When the executable is not found, the error is raised before anything is started:
  the log of the call is the log it was given, with no spawn request added.
\<close>

theorem is_container_missing_no_spawn:
  assumes "shutil_which h ''systemd-detect-virt'' = None"
  shows "snd (is_container h tr) = tr
         \<and> spawned (snd (is_container h tr)) = spawned tr
         \<and> (\<exists>d. fst (is_container h tr) = Some (Inl (DetectVirtNotFound d)))"
  using assms by (simp add: is_container_not_found)

theorem is_container_missing_no_spawn_witness:
  "shutil_which minimal_host ''systemd-detect-virt'' = None
   \<and> snd (is_container minimal_host []) = []
   \<and> spawned (snd (is_container minimal_host [])) = []
   \<and> (\<exists>d. fst (is_container minimal_host []) = Some (Inl (DetectVirtNotFound d)))"
  using is_container_missing_no_spawn [of minimal_host "[]"]
  by (simp add: minimal_host_simps)

text \<open>
  C9 (as amended). The error raised for the missing executable carries exactly the
  message
  \<open>executable `systemd-detect-virt` not found. cannot determine if machine is a container instance\<close>.
  The property \<open>message\<close> of a \<open>DetectVirtNotFoundError\<close> returns the first argument the
  exception was constructed with whenever it was constructed with at least one argument;
  constructed with no argument, which the class accepts since it defines no \<open>__init__\<close>,
  \<open>message\<close> returns nothing and raises \<open>IndexError\<close>.
\<close>

theorem is_container_missing_message:
  assumes "shutil_which h ''systemd-detect-virt'' = None"
  shows "(\<exists>d. fst (is_container h tr) = Some (Inl (DetectVirtNotFound d))
              \<and> message d = Inr ''executable `systemd-detect-virt` not found. cannot determine if machine is a container instance'')
         \<and> (args e \<noteq> [] \<longrightarrow> message e = Inr (hd (args e)))
         \<and> (args e = [] \<longrightarrow> message e = Inl IndexError)"
proof -
  have "args e \<noteq> [] \<longrightarrow> message e = Inr (hd (args e))"
    and "args e = [] \<longrightarrow> message e = Inl IndexError"
    by (cases e rule: message.cases; simp)+
  with assms show ?thesis by (simp add: is_container_not_found)
qed

theorem is_container_missing_message_witness:
  "shutil_which minimal_host ''systemd-detect-virt'' = None
   \<and> (\<exists>d. fst (is_container minimal_host []) = Some (Inl (DetectVirtNotFound d))
              \<and> message d = Inr ''executable `systemd-detect-virt` not found. cannot determine if machine is a container instance'')
   \<and> args (DetectVirtNotFoundError [''no tool'', ''second'']) \<noteq> []
   \<and> message (DetectVirtNotFoundError [''no tool'', ''second'']) = Inr ''no tool''
   \<and> args (DetectVirtNotFoundError ([] :: string list)) = []
   \<and> message (DetectVirtNotFoundError ([] :: string list)) = Inl IndexError"
  using
    is_container_missing_message
      [of minimal_host "[]" "DetectVirtNotFoundError [''no tool'', ''second'']"]
    is_container_missing_message
      [of minimal_host "[]" "DetectVirtNotFoundError ([] :: string list)"]
  by (simp add: minimal_host_simps)

text \<open>
  C9 as the claim words it, that \<open>message\<close> always returns the first argument, fails on
  the exception constructed with no argument: \<open>self.args[0]\<close> on the empty tuple raises
  \<open>IndexError\<close>, so nothing is returned.
\<close>

theorem message_always_returns_counterexample:
  "message (DetectVirtNotFoundError ([] :: string list)) = Inl IndexError"
  by simp

section \<open>The invocation and what the result depends on\<close>

text \<open>
  C5. Whenever the tool is found, the one command line the call asks the host to start is
  \<open>systemd-detect-virt --container\<close>, with \<open>--container\<close> as its single argument, and
  the outcome is computed from the result of that spawn with the exit status as the only
  attribute of the child that is read: the boolean is \<open>exit_status c = 0\<close>, and what the
  child wrote to its streams does not occur in it.
\<close>

theorem is_container_invocation:
  assumes "shutil_which h ''systemd-detect-virt'' \<noteq> None"
  shows "(\<exists>evs. snd (is_container h tr) = tr @ evs
                \<and> spawned evs = [[''systemd-detect-virt'', ''--container'']])
         \<and> fst (is_container h tr) =
             (case spawn h [''systemd-detect-virt'', ''--container''] of
                SpawnFails e \<Rightarrow> Some (Inl (Propagated e))
              | Exits c \<Rightarrow> Some (Inr (exit_status c = 0))
              | NeverExits \<Rightarrow> None)"
  using assms
  by (cases "spawn h [''systemd-detect-virt'', ''--container'']")
     (simp_all add: is_container_found)

theorem is_container_invocation_witness:
  "shutil_which noisy_lxc_host ''systemd-detect-virt'' \<noteq> None
   \<and> (\<exists>evs. snd (is_container noisy_lxc_host []) = [] @ evs
              \<and> spawned evs = [[''systemd-detect-virt'', ''--container'']])
   \<and> fst (is_container noisy_lxc_host []) = Some (Inr True)"
  using is_container_invocation [of noisy_lxc_host "[]"]
  by (simp add: noisy_lxc_host_simps)

text \<open>
  C10. Two calls whose children exit with the same status return the same boolean,
  however the two children differ in what they write to standard output and standard
  error; the \<open>CompletedProcess\<close> that \<open>is_container\<close> receives holds neither stream.
\<close>

theorem is_container_output_noninterference:
  assumes "shutil_which h1 ''systemd-detect-virt'' \<noteq> None"
    and "shutil_which h2 ''systemd-detect-virt'' \<noteq> None"
    and "spawn h1 [''systemd-detect-virt'', ''--container''] = Exits c1"
    and "spawn h2 [''systemd-detect-virt'', ''--container''] = Exits c2"
    and "exit_status c1 = exit_status c2"
  shows "fst (is_container h1 tr1) = fst (is_container h2 tr2)
         \<and> fst (is_container h1 tr1) = Some (Inr (exit_status c1 = 0))
         \<and> fst (subprocess_run h1 [''systemd-detect-virt'', ''--container''] tr1)
             = Some (Inr \<lparr>cmd_args = [''systemd-detect-virt'', ''--container''],
                          returncode = exit_status c1, stdout = None, stderr = None\<rparr>)"
  using assms by (simp add: is_container_found subprocess_run_def)

theorem is_container_output_noninterference_witness:
  "shutil_which lxc_host ''systemd-detect-virt'' \<noteq> None
   \<and> shutil_which noisy_lxc_host ''systemd-detect-virt'' \<noteq> None
   \<and> spawn lxc_host [''systemd-detect-virt'', ''--container'']
       = Exits \<lparr>exit_status = 0, written_stdout = ''lxc'', written_stderr = ''''\<rparr>
   \<and> spawn noisy_lxc_host [''systemd-detect-virt'', ''--container'']
       = Exits \<lparr>exit_status = 0, written_stdout = ''lxc-libvirt'',
                written_stderr = ''warning: degraded''\<rparr>
   \<and> fst (is_container lxc_host []) = fst (is_container noisy_lxc_host [])
   \<and> fst (is_container lxc_host []) = Some (Inr True)"
  using is_container_output_noninterference [of lxc_host noisy_lxc_host
      "\<lparr>exit_status = 0, written_stdout = ''lxc'', written_stderr = ''''\<rparr>"
      "\<lparr>exit_status = 0, written_stdout = ''lxc-libvirt'',
        written_stderr = ''warning: degraded''\<rparr>" "[]" "[]"]
  by (auto simp add: lxc_host_simps noisy_lxc_host_simps)

section \<open>Repeated calls\<close>

text \<open>
  C6. Two calls on hosts in the same state, that is, where the lookup finds the tool on
  both or on neither and, when it is found, both children exit with the same status,
  have the same outcome: the same boolean or the same error. This holds whatever
  happened before either call, and in particular for a second call that follows a first
  one on an unchanged host.
\<close>

theorem is_container_deterministic:
  assumes "(shutil_which h1 ''systemd-detect-virt'' = None)
             = (shutil_which h2 ''systemd-detect-virt'' = None)"
    and "shutil_which h1 ''systemd-detect-virt'' \<noteq> None \<longrightarrow>
           (\<exists>c1 c2. spawn h1 [''systemd-detect-virt'', ''--container''] = Exits c1
                  \<and> spawn h2 [''systemd-detect-virt'', ''--container''] = Exits c2
                  \<and> exit_status c1 = exit_status c2)"
  shows "fst (is_container h1 tr1) = fst (is_container h2 tr2)
         \<and> fst (is_container h1 (snd (is_container h1 tr1))) = fst (is_container h1 tr1)"
proof (cases "shutil_which h1 ''systemd-detect-virt'' = None")
  case True
  with assms(1) have "shutil_which h2 ''systemd-detect-virt'' = None" by simp
  with True show ?thesis by (simp add: is_container_not_found)
next
  case False
  with assms(1) have found2: "shutil_which h2 ''systemd-detect-virt'' \<noteq> None" by simp
  from False assms(2) obtain c1 c2
    where "spawn h1 [''systemd-detect-virt'', ''--container''] = Exits c1"
      and "spawn h2 [''systemd-detect-virt'', ''--container''] = Exits c2"
      and "exit_status c1 = exit_status c2"
    by blast
  with False found2 show ?thesis by (simp add: is_container_found)
qed

theorem is_container_deterministic_witness:
  "(shutil_which lxc_host ''systemd-detect-virt'' = None)
     = (shutil_which noisy_lxc_host ''systemd-detect-virt'' = None)
   \<and> shutil_which lxc_host ''systemd-detect-virt'' \<noteq> None
   \<and> (\<exists>c1 c2. spawn lxc_host [''systemd-detect-virt'', ''--container''] = Exits c1
              \<and> spawn noisy_lxc_host [''systemd-detect-virt'', ''--container''] = Exits c2
              \<and> exit_status c1 = exit_status c2)
   \<and> fst (is_container lxc_host []) = fst (is_container noisy_lxc_host [Spawn [''true'']])
   \<and> fst (is_container lxc_host (snd (is_container lxc_host []))) = fst (is_container lxc_host [])"
  using is_container_deterministic [of lxc_host noisy_lxc_host "[]" "[Spawn [''true'']]"]
  by (simp add: lxc_host_simps noisy_lxc_host_simps)

text \<open>
  C7. Whenever the tool is found, a call makes exactly one spawn request and adds
  nothing else to the log but the wait for that child; a call that returns a boolean has
  waited for the child to exit before it returns; nothing is retried and nothing is
  remembered, so a second call on the same host makes a spawn request of its own.
\<close>

theorem is_container_one_spawn:
  assumes "shutil_which h ''systemd-detect-virt'' \<noteq> None"
  shows "snd (is_container h tr) =
           tr @ (case spawn h [''systemd-detect-virt'', ''--container''] of
                   Exits c \<Rightarrow> [Spawn [''systemd-detect-virt'', ''--container''],
                               Reap [''systemd-detect-virt'', ''--container'']]
                 | _ \<Rightarrow> [Spawn [''systemd-detect-virt'', ''--container'']])
         \<and> length (spawned (snd (is_container h tr))) = length (spawned tr) + 1
         \<and> (\<forall>b. fst (is_container h tr) = Some (Inr b) \<longrightarrow>
                snd (is_container h tr) =
                  tr @ [Spawn [''systemd-detect-virt'', ''--container''],
                        Reap [''systemd-detect-virt'', ''--container'']])
         \<and> spawned (snd (is_container h (snd (is_container h tr)))) =
             spawned tr @ [[''systemd-detect-virt'', ''--container''],
                           [''systemd-detect-virt'', ''--container'']]"
  using assms
  by (cases "spawn h [''systemd-detect-virt'', ''--container'']")
     (simp_all add: is_container_found spawned_append)

theorem is_container_one_spawn_witness:
  "shutil_which bare_metal_host ''systemd-detect-virt'' \<noteq> None
   \<and> fst (is_container bare_metal_host []) = Some (Inr False)
   \<and> snd (is_container bare_metal_host []) =
       [Spawn [''systemd-detect-virt'', ''--container''],
        Reap [''systemd-detect-virt'', ''--container'']]
   \<and> length (spawned (snd (is_container bare_metal_host []))) = 1
   \<and> spawned (snd (is_container bare_metal_host (snd (is_container bare_metal_host [])))) =
       [[''systemd-detect-virt'', ''--container''], [''systemd-detect-virt'', ''--container'']]"
proof -
  have found: "shutil_which bare_metal_host ''systemd-detect-virt'' \<noteq> None"
    by (simp add: bare_metal_host_simps)
  have returned: "fst (is_container bare_metal_host []) = Some (Inr False)"
    by (simp add: is_container_found bare_metal_host_simps)
  from is_container_one_spawn [OF found, of "[]"] found returned
  show ?thesis by (auto simp add: bare_metal_host_simps)
qed

end
